theory Spec2Isabelle
  imports Main
begin

section \<open>Strings of the program\<close>

text \<open>
  The program is a single Node.js script. Its strings are modelled as \<^typ>\<open>string\<close>:
  one \<^typ>\<open>char\<close> stands for one UTF-16 code unit below 256.
  The white space class \<open>\s\<close> of a JavaScript regular expression is given on code
  units, as ECMAScript lists it (WhiteSpace and LineTerminator).
\<close>

definition isWhiteSpaceUnit :: "nat \<Rightarrow> bool" where
  "isWhiteSpaceUnit u \<longleftrightarrow>
     u = 9 \<or> u = 10 \<or> u = 11 \<or> u = 12 \<or> u = 13 \<or> u = 32 \<or> u = 160 \<or> u = 5760 \<or>
     (8192 \<le> u \<and> u \<le> 8202) \<or> u = 8232 \<or> u = 8233 \<or> u = 8239 \<or> u = 8287 \<or>
     u = 12288 \<or> u = 65279"

definition isWhitespace :: "char \<Rightarrow> bool" where
  "isWhitespace c \<longleftrightarrow> isWhiteSpaceUnit (of_char c)"

text \<open>
  \<^verbatim>\<open>let branchName = packageName.replace(/\s/g , "-"); return branchName;\<close>
  The pattern matches one white space character; with the flag \<open>g\<close> every match is
  replaced, each by one hyphen.
\<close>

definition convertPackgeNameToGitName :: "string \<Rightarrow> string" where
  "convertPackgeNameToGitName packageName =
     map (\<lambda>c. if isWhitespace c then CHR ''-'' else c) packageName"

text \<open>
  The derivation as the specification words it: every maximal run of white space becomes
  a single hyphen. It is compared with the function of the source below.
\<close>

function spec_replaceWhitespaceRuns :: "string \<Rightarrow> string" where
  "spec_replaceWhitespaceRuns [] = []"
| "spec_replaceWhitespaceRuns (c # cs) =
     (if isWhitespace c then CHR ''-'' # spec_replaceWhitespaceRuns (dropWhile isWhitespace cs)
      else c # spec_replaceWhitespaceRuns cs)"
  by pat_completeness auto
termination
  by (relation "measure length") (auto simp: length_dropWhile_le less_Suc_eq_le)

section \<open>Outcomes of calls\<close>

text \<open>
  A JavaScript call returns a value, throws, or (an awaited promise that is never settled)
  does not come back. Calls of \<open>log\<close> (screen and log.txt) are left out of the model: no
  claim reads the log, and \<open>nolog\<close> of \<open>runCommand\<close> only guards such calls.
\<close>

datatype error =
    ENOENT | EEXIST | ENOTDIR | EISDIR
  | TypeError
  | ReferenceError string
  | Error string

datatype 'a outcome = Returned 'a | Threw error | Pending

section \<open>The file system\<close>

text \<open>
  Paths are written by the program with backslashes (\<open>`${folder}\\${name}`\<close>): it runs on
  Windows, where both the backslash and \<open>/\<close> separate components. A path string is read
  as its list of components, empty components and \<open>.\<close> dropped; \<open>..\<close> is not interpreted.
  The file system maps the component list of an entry, relative to the working directory,
  to what is stored there.
\<close>

definition backslash :: char where
  "backslash = CHR 0x5C"

definition dquote :: char where
  "dquote = CHR 0x22"

definition isSep :: "char \<Rightarrow> bool" where
  "isSep c \<longleftrightarrow> c = CHR ''/'' \<or> c = backslash"

fun components :: "string \<Rightarrow> string \<Rightarrow> string list" where
  "components cur [] = (if cur = [] \<or> cur = ''.'' then [] else [cur])"
| "components cur (c # cs) =
     (if isSep c then
        (if cur = [] \<or> cur = ''.'' then components [] cs else cur # components [] cs)
      else components (cur @ [c]) cs)"

definition split_path :: "string \<Rightarrow> string list" where
  "split_path s = components [] s"

datatype entry = Directory | RegularFile string

type_synonym filesystem = "(string list \<times> entry) list"

text \<open>\<open>path.join(a, b)\<close> and \<open>path.basename(s)\<close> of Node, on such paths.\<close>

definition path_join :: "string \<Rightarrow> string \<Rightarrow> string" where
  "path_join a b = a @ [backslash] @ b"

definition basename :: "string \<Rightarrow> string" where
  "basename s = (case split_path s of [] \<Rightarrow> [] | c # cs \<Rightarrow> last (c # cs))"

text \<open>The calls of module \<open>fs\<close> that the program makes. The working directory exists.\<close>

definition existsSync :: "filesystem \<Rightarrow> string \<Rightarrow> bool" where
  "existsSync fs s \<longleftrightarrow> split_path s = [] \<or> map_of fs (split_path s) \<noteq> None"

definition mkdirSync :: "filesystem \<Rightarrow> string \<Rightarrow> error + filesystem" where
  "mkdirSync fs s =
     (let p = split_path s in
      if p = [] \<or> map_of fs p \<noteq> None then Inl EEXIST
      else if butlast p = [] then Inr (fs @ [(p, Directory)])
      else (case map_of fs (butlast p) of
              None \<Rightarrow> Inl ENOENT
            | Some (RegularFile content) \<Rightarrow> Inl ENOTDIR
            | Some Directory \<Rightarrow> Inr (fs @ [(p, Directory)])))"

text \<open>\<open>fs.lstatSync(s).isDirectory()\<close>\<close>

definition isDirectory :: "filesystem \<Rightarrow> string \<Rightarrow> error + bool" where
  "isDirectory fs s =
     (let p = split_path s in
      if p = [] then Inr True
      else (case map_of fs p of
              None \<Rightarrow> Inl ENOENT
            | Some Directory \<Rightarrow> Inr True
            | Some (RegularFile content) \<Rightarrow> Inr False))"

definition readdirSync :: "filesystem \<Rightarrow> string \<Rightarrow> string list" where
  "readdirSync fs s =
     remdups (map (\<lambda>(q, e). last q)
       (filter (\<lambda>(q, e). q \<noteq> [] \<and> butlast q = split_path s) fs))"

definition readFileSync :: "filesystem \<Rightarrow> string \<Rightarrow> error + string" where
  "readFileSync fs s =
     (case map_of fs (split_path s) of
        None \<Rightarrow> (if split_path s = [] then Inl EISDIR else Inl ENOENT)
      | Some Directory \<Rightarrow> Inl EISDIR
      | Some (RegularFile content) \<Rightarrow> Inr content)"

section \<open>The Command Runner\<close>

text \<open>The field \<open>output\<close> of the result object is \<open>output_text\<close> here.\<close>

record command_result =
  exit_code :: int
  output_text :: string

datatype stream = Stdout | Stderr

datatype proc_event = Data stream string | Exit int

text \<open>
  The promise of \<open>runCommand\<close>: both \<open>data\<close> handlers do \<open>output += x\<close>, the \<open>exit\<close>
  handler resolves with \<open>{'exit_code': code, 'output': output}\<close>. A process that emits no
  \<open>exit\<close> leaves the promise pending. The code of a process ended by a signal, which is
  \<open>null\<close>, is left out.
\<close>

fun settle :: "string \<Rightarrow> proc_event list \<Rightarrow> command_result option" where
  "settle out [] = None"
| "settle out (Data s x # evs) = settle (out @ x) evs"
| "settle out (Exit code # evs) = Some \<lparr>exit_code = code, output_text = out\<rparr>"

text \<open>
  The state the program acts on: the file system, the number of \<open>fs.watch\<close> handles that
  are open, and the command lines handed to \<open>spawn\<close>, in order.
\<close>

record world =
  files :: filesystem
  watchers :: nat
  issued :: "(string \<times> string list) list"

datatype event_type = Rename | Change

text \<open>
  What an external process does is not the program's: it is a parameter. For the state at
  the time of \<open>spawn\<close> and the command line it gives the events of the child process, the
  events that \<open>fs.watch\<close> listeners are called with while the process runs, and the file
  system it leaves.
\<close>

record run_outcome =
  events :: "proc_event list"
  reported :: "(event_type \<times> string) list"
  files_after :: filesystem

datatype package_xml = NoObject | NoPackage | Package "string option"

text \<open>
  \<open>parseString\<close> of xml2js is a parameter too: \<open>NoObject\<close> when the callback gets no
  result, \<open>NoPackage\<close> when the result has no property \<open>Package\<close>, else the text that
  \<open>`${commitMessage}`\<close> renders for \<open>Package.description\<close>, if that property is there.
\<close>

record env =
  run :: "world \<Rightarrow> string \<Rightarrow> string list \<Rightarrow> run_outcome"
  parseString :: "string \<Rightarrow> package_xml"

definition spawn :: "string \<Rightarrow> string list \<Rightarrow> world \<Rightarrow> world" where
  "spawn command arguments w = w\<lparr>issued := issued w @ [(command, arguments)]\<rparr>"

text \<open>
  \<open>runCommand(command, arguments = [], nolog)\<close>, awaited. The second component of the
  value is what the event loop hands to \<open>fs.watch\<close> listeners during the wait.
\<close>

definition runCommand ::
  "env \<Rightarrow> string \<Rightarrow> string list \<Rightarrow> world \<Rightarrow>
     (command_result \<times> (event_type \<times> string) list) outcome \<times> world" where
  "runCommand e command arguments w =
     (let p = run e w command arguments;
          w' = (spawn command arguments w)\<lparr>files := files_after p\<rparr>
      in case settle [] (events p) of
           None \<Rightarrow> (Pending, w')
         | Some returnObject \<Rightarrow> (Returned (returnObject, reported p), w'))"

text \<open>\<open>await m\<close>, then the rest of the function body.\<close>

definition await ::
  "'a outcome \<times> world \<Rightarrow> ('a \<Rightarrow> world \<Rightarrow> 'b outcome \<times> world) \<Rightarrow> 'b outcome \<times> world" where
  "await m k =
     (case m of
        (Returned a, w) \<Rightarrow> k a w
      | (Threw err, w) \<Rightarrow> (Threw err, w)
      | (Pending, w) \<Rightarrow> (Pending, w))"

section \<open>The Branch Manager\<close>

text \<open>
  \<^verbatim>\<open>async function checkIfBranchExists(branchName){
  let output = await runCommand(`git branch -l ${branchName})`);
  if(output.length > 0 || output == 0) return true;
  else return false;
}\<close>
  \<open>output\<close> is the result object of \<open>runCommand\<close>. It has no property \<open>length\<close>, so
  \<open>output.length\<close> is \<open>undefined\<close> and \<open>undefined > 0\<close> is false; \<open>output == 0\<close> compares
  an object with a number through its string \<open>[object Object]\<close>, which is no number: false.
\<close>

definition length_property :: "command_result \<Rightarrow> int option" where
  "length_property returnObject = None"

definition greater_zero :: "int option \<Rightarrow> bool" where
  "greater_zero v = (case v of None \<Rightarrow> False | Some n \<Rightarrow> n > 0)"

definition object_loose_equals_zero :: "command_result \<Rightarrow> bool" where
  "object_loose_equals_zero returnObject = False"

definition branch_query :: "string \<Rightarrow> string" where
  "branch_query branchName = ''git branch -l '' @ branchName @ '')''"

definition checkIfBranchExists :: "env \<Rightarrow> string \<Rightarrow> world \<Rightarrow> bool outcome \<times> world" where
  "checkIfBranchExists e branchName w =
     await (runCommand e (branch_query branchName) [] w)
       (\<lambda>(out, seen) w'.
          if greater_zero (length_property out) \<or> object_loose_equals_zero out
          then (Returned True, w') else (Returned False, w'))"

text \<open>
  Called without \<open>await\<close>, an async function runs to its first \<open>await\<close> and hands back a
  Promise object: here the query has been spawned and nothing more. The caller holds the
  Promise, not the value it will be resolved with, and every object is truthy. The query
  only reads the repository; what its process does later is not followed.
\<close>

datatype promise = Promise

definition ToBoolean :: "promise \<Rightarrow> bool" where
  "ToBoolean p = True"

definition checkIfBranchExists_call :: "string \<Rightarrow> world \<Rightarrow> promise \<times> world" where
  "checkIfBranchExists_call branchName w = (Promise, spawn (branch_query branchName) [] w)"

datatype branch_result = Zero | CommandResult command_result

text \<open>
  \<^verbatim>\<open>async function createGitBranch(branchName){
  branchName = convertPackgeNameToGitName(branchName);
  if(!checkIfBranchExists(branchName)){
    let command = `git branch ${branchName} -f`;
    return await runCommand(command);
  }
  return 0;
}\<close>
\<close>

definition createGitBranch :: "env \<Rightarrow> string \<Rightarrow> world \<Rightarrow> branch_result outcome \<times> world" where
  "createGitBranch e label w =
     (let branchName = convertPackgeNameToGitName label;
          (p, w1) = checkIfBranchExists_call branchName w
      in if \<not> ToBoolean p then
           await (runCommand e (''git branch '' @ branchName @ '' -f'') [] w1)
             (\<lambda>(r, seen) w2. (Returned (CommandResult r), w2))
         else (Returned Zero, w1))"

definition changeToGitBranch :: "env \<Rightarrow> string \<Rightarrow> world \<Rightarrow> command_result outcome \<times> world" where
  "changeToGitBranch e label w =
     (let branchName = convertPackgeNameToGitName label
      in await (runCommand e (''git checkout -b '' @ branchName) [] w)
           (\<lambda>(r, seen) w'. (Returned r, w')))"

section \<open>The Commit/Publish Stage\<close>

definition pushBranchToRemote :: "env \<Rightarrow> string \<Rightarrow> world \<Rightarrow> command_result outcome \<times> world" where
  "pushBranchToRemote e label w =
     (let branchName = convertPackgeNameToGitName label
      in await (runCommand e ''git push -u origin HEAD'' [] w)
           (\<lambda>(r, seen) w'. (Returned r, w')))"

definition gitCommit :: "env \<Rightarrow> string \<Rightarrow> world \<Rightarrow> command_result outcome \<times> world" where
  "gitCommit e commitMessage w =
     await (runCommand e (''git commit -m '' @ [dquote] @ commitMessage @ [dquote] @ '' -a'') [] w)
       (\<lambda>(r, seen) w'. (Returned r, w'))"

section \<open>Relocation into the project tree\<close>

text \<open>
  \<open>copyFolderRecursiveSync\<close> calls \<open>copyFileSync(curSource, targetFolder)\<close> for every
  entry that is no directory. The script declares no function of that name and binds none
  from a module (the function of that name in Node is \<open>fs.copyFileSync\<close>), so the call
  throws a ReferenceError. The recursion follows the directories it reads; the first
  argument bounds its depth, and \<open>Pending\<close> stands for a recursion that has not ended
  within the bound.
\<close>

fun copyFolderRecursiveSync ::
      "nat \<Rightarrow> string \<Rightarrow> string \<Rightarrow> filesystem \<Rightarrow> unit outcome \<times> filesystem"
  and forEach_file ::
      "nat \<Rightarrow> string \<Rightarrow> string \<Rightarrow> string list \<Rightarrow> filesystem \<Rightarrow> unit outcome \<times> filesystem"
where
  "copyFolderRecursiveSync 0 source target fs = (Pending, fs)"
| "copyFolderRecursiveSync (Suc depth) source target fs =
     (let targetFolder = path_join target (basename source) in
      case (if \<not> existsSync fs targetFolder then mkdirSync fs targetFolder else Inr fs) of
        Inl err \<Rightarrow> (Threw err, fs)
      | Inr fs1 \<Rightarrow>
          (case isDirectory fs1 source of
             Inl err \<Rightarrow> (Threw err, fs1)
           | Inr False \<Rightarrow> (Returned (), fs1)
           | Inr True \<Rightarrow> forEach_file depth source targetFolder (readdirSync fs1 source) fs1))"
| "forEach_file depth source targetFolder [] fs = (Returned (), fs)"
| "forEach_file depth source targetFolder (file # others) fs =
     (let curSource = path_join source file in
      case isDirectory fs curSource of
        Inl err \<Rightarrow> (Threw err, fs)
      | Inr True \<Rightarrow>
          (case copyFolderRecursiveSync depth curSource targetFolder fs of
             (Returned u, fs') \<Rightarrow> forEach_file depth source targetFolder others fs'
           | (Threw err, fs') \<Rightarrow> (Threw err, fs')
           | (Pending, fs') \<Rightarrow> (Pending, fs'))
      | Inr False \<Rightarrow> (Threw (ReferenceError ''copyFileSync''), fs))"

text \<open>
  The settings the pipeline reads from the global \<open>config\<close>, with the types a valid
  config.json gives them.
\<close>

record config =
  skipExistingChangeSets :: bool
  downloadedPackagesFolder :: string
  salesforceUsername :: string
  projectName :: string

definition package_folder :: "config \<Rightarrow> string \<Rightarrow> string" where
  "package_folder cfg name = downloadedPackagesFolder cfg @ [backslash] @ name"

definition project_default_folder :: "config \<Rightarrow> string" where
  "project_default_folder cfg =
     projectName cfg @ [backslash] @ ''force-app'' @ [backslash] @ ''main'' @ [backslash]
       @ ''default'' @ [backslash]"

definition copyPackageIntoProjectFolder ::
  "nat \<Rightarrow> config \<Rightarrow> string \<Rightarrow> filesystem \<Rightarrow> unit outcome \<times> filesystem" where
  "copyPackageIntoProjectFolder depth cfg packageName fs =
     copyFolderRecursiveSync depth (package_folder cfg packageName)
       (project_default_folder cfg) fs"

section \<open>The Change Watcher and the Retrieval Stage\<close>

definition endsWith :: "string \<Rightarrow> string \<Rightarrow> bool" where
  "endsWith s suffix \<longleftrightarrow>
     length suffix \<le> length s \<and> drop (length s - length suffix) s = suffix"

text \<open>
  \<^verbatim>\<open>(eventType, filename) => { if(filename.endsWith('.xml')) modifiedFiles.push(filename); }\<close>
\<close>

definition watchCallback :: "string list \<Rightarrow> event_type \<times> string \<Rightarrow> string list" where
  "watchCallback modifiedFiles ev =
     (case ev of (eventType, filename) \<Rightarrow>
        if endsWith filename ''.xml'' then modifiedFiles @ [filename] else modifiedFiles)"

text \<open>\<open>[...new Set(xs)]\<close>: the first occurrence of every element, in the order of \<open>xs\<close>.\<close>

definition spread_Set :: "'a list \<Rightarrow> 'a list" where
  "spread_Set xs = rev (remdups (rev xs))"

definition retrieve_arguments :: "config \<Rightarrow> string \<Rightarrow> string list" where
  "retrieve_arguments cfg changeSetName =
     [''force:mdapi:retrieve'', ''-s'',
      ''-u '' @ [dquote] @ salesforceUsername cfg @ [dquote],
      ''-r ./'' @ downloadedPackagesFolder cfg,
      ''-p '' @ [dquote] @ changeSetName @ [dquote],
      ''--unzip'',
      ''--zipfilename '' @ [dquote] @ changeSetName @ ''.zip'' @ [dquote]]"

definition skipped :: "config \<Rightarrow> filesystem \<Rightarrow> string \<Rightarrow> bool" where
  "skipped cfg fs changeSetName \<longleftrightarrow>
     skipExistingChangeSets cfg \<and> existsSync fs (package_folder cfg changeSetName)"

text \<open>
  The loop of \<open>fetchChangeSets\<close>. \<open>fs.watch\<close> opens a handle, \<open>watcher.close()\<close> closes
  one. In the branch \<open>if(!copyToProjectFolder)\<close> the statement \<open>watcher.close()\<close> stands
  after \<open>return modifiedFiles\<close> and is never run. In the other branch the array is
  emptied and the copy is synchronous, so no listener runs before the handle is closed.
\<close>

fun fetch_each ::
  "nat \<Rightarrow> env \<Rightarrow> config \<Rightarrow> bool \<Rightarrow> string list \<Rightarrow> world \<Rightarrow> string list outcome \<times> world" where
  "fetch_each depth e cfg copyToProjectFolder [] w = (Returned [], w)"
| "fetch_each depth e cfg copyToProjectFolder (changeSetName # others) w =
     (if skipped cfg (files w) changeSetName
      then fetch_each depth e cfg copyToProjectFolder others w
      else
        (let w1 = w\<lparr>watchers := Suc (watchers w)\<rparr> in
         await (runCommand e ''sfdx'' (retrieve_arguments cfg changeSetName) w1)
           (\<lambda>(r, seen) w2.
              let modifiedFiles = foldl watchCallback [] seen in
              if \<not> copyToProjectFolder then (Returned (spread_Set modifiedFiles), w2)
              else
                (let modifiedFiles = [] in
                 case copyPackageIntoProjectFolder depth cfg changeSetName (files w2) of
                   (Returned u, fs) \<Rightarrow>
                     (Returned (spread_Set modifiedFiles),
                      w2\<lparr>files := fs, watchers := watchers w2 - 1\<rparr>)
                 | (Threw err, fs) \<Rightarrow> (Threw err, w2\<lparr>files := fs\<rparr>)
                 | (Pending, fs) \<Rightarrow> (Pending, w2\<lparr>files := fs\<rparr>)))))"

text \<open>
  \<^verbatim>\<open>if (!fs.existsSync(config.downloadedPackagesFolder)) fs.mkdirSync(config.downloadedPackagesFolder);\<close>
\<close>

definition ensure_download_folder :: "config \<Rightarrow> filesystem \<Rightarrow> error + filesystem" where
  "ensure_download_folder cfg fs =
     (if \<not> existsSync fs (downloadedPackagesFolder cfg)
      then mkdirSync fs (downloadedPackagesFolder cfg) else Inr fs)"

definition fetchChangeSets ::
  "nat \<Rightarrow> env \<Rightarrow> config \<Rightarrow> string list \<Rightarrow> bool \<Rightarrow> world \<Rightarrow> string list outcome \<times> world" where
  "fetchChangeSets depth e cfg changeSetNames copyToProjectFolder w =
     (case ensure_download_folder cfg (files w) of
        Inl err \<Rightarrow> (Threw err, w)
      | Inr fs \<Rightarrow> fetch_each depth e cfg copyToProjectFolder changeSetNames (w\<lparr>files := fs\<rparr>))"

section \<open>The Pipeline Orchestrator\<close>

text \<open>
  \<^verbatim>\<open>for(const fileName of downloadedFiles){ await runCommand(`git add ${fileName}`); }\<close>
  The loop walks the array by its index and reads the length anew at every turn.
  \<open>downloadedFiles\<close> is the array that \<open>fetchChangeSets\<close> has returned: the one bound to
  \<open>modifiedFiles\<close>. When the watcher of that call is still open (\<open>live\<close>), its listener
  pushes into this very array during every awaited \<open>git add\<close>, and the loop goes on to the
  names pushed. The loop need not end: the first argument bounds its turns, and \<open>Pending\<close>
  stands for a loop that has not ended within the bound.
\<close>

fun stageFiles ::
  "nat \<Rightarrow> env \<Rightarrow> bool \<Rightarrow> nat \<Rightarrow> string list \<Rightarrow> world \<Rightarrow> unit outcome \<times> world" where
  "stageFiles 0 e live i downloadedFiles w =
     (if i < length downloadedFiles then (Pending, w) else (Returned (), w))"
| "stageFiles (Suc turns) e live i downloadedFiles w =
     (if i < length downloadedFiles then
        await (runCommand e (''git add '' @ downloadedFiles ! i) [] w)
          (\<lambda>(r, seen) w'.
             stageFiles turns e live (Suc i)
               (if live then foldl watchCallback downloadedFiles seen else downloadedFiles) w')
      else (Returned (), w))"

definition getPackageXMLAsObject ::
  "env \<Rightarrow> config \<Rightarrow> string \<Rightarrow> world \<Rightarrow> package_xml outcome \<times> world" where
  "getPackageXMLAsObject e cfg folderName w =
     (case readFileSync (files w)
             (package_folder cfg folderName @ [backslash] @ ''package.xml'') of
        Inl err \<Rightarrow> (Threw err, w)
      | Inr packageXMLAsString \<Rightarrow> (Returned (parseString e packageXMLAsString), w))"

text \<open>
  The body of the loop of \<open>populateAndPushBranches\<close> for one name, and the loop.
  \<open>fetchChangeSets([branchName])\<close> leaves \<open>copyToProjectFolder\<close> undefined, which is falsy.
  The call leaves its watcher open exactly when it has opened one, that is when it has run
  the retrieval; the \<open>[]\<close> it returns for a skipped name has no listener.
  \<open>packageXMLJSON.Package.description\<close> throws a TypeError on \<open>undefined\<close>.
\<close>

definition commit_from_package :: "env \<Rightarrow> package_xml \<Rightarrow> world \<Rightarrow> command_result outcome \<times> world" where
  "commit_from_package e packageXMLJSON w =
     (case packageXMLJSON of
        NoObject \<Rightarrow> (Threw TypeError, w)
      | NoPackage \<Rightarrow> (Threw TypeError, w)
      | Package None \<Rightarrow> gitCommit e ''undefined'' w
      | Package (Some commitMessage) \<Rightarrow> gitCommit e commitMessage w)"

definition watcher_left_open :: "world \<Rightarrow> world \<Rightarrow> bool" where
  "watcher_left_open before after \<longleftrightarrow> watchers before < watchers after"

definition process_branch ::
  "nat \<Rightarrow> env \<Rightarrow> config \<Rightarrow> string \<Rightarrow> world \<Rightarrow> unit outcome \<times> world" where
  "process_branch turns e cfg branchName w =
     await (createGitBranch e branchName w) (\<lambda>created w1.
     await (changeToGitBranch e branchName w1) (\<lambda>checkedOut w2.
     await (fetchChangeSets 0 e cfg [branchName] False w2) (\<lambda>downloadedFiles w3.
     await (stageFiles turns e (watcher_left_open w2 w3) 0 downloadedFiles w3) (\<lambda>staged w4.
     await (getPackageXMLAsObject e cfg branchName w4) (\<lambda>packageXMLJSON w5.
     await (commit_from_package e packageXMLJSON w5) (\<lambda>committed w6.
     await (pushBranchToRemote e branchName w6) (\<lambda>pushed w7.
     (Returned (), w7))))))))"

fun populateAndPushBranches ::
  "nat \<Rightarrow> env \<Rightarrow> config \<Rightarrow> string list \<Rightarrow> world \<Rightarrow> unit outcome \<times> world" where
  "populateAndPushBranches turns e cfg [] w = (Returned (), w)"
| "populateAndPushBranches turns e cfg (branchName # others) w =
     await (process_branch turns e cfg branchName w)
       (\<lambda>finished w'. populateAndPushBranches turns e cfg others w')"

section \<open>Start-up and validation of the configuration\<close>

text \<open>
  The values a property of config.json holds (arrays and nested objects left out), and the
  object as the list of its properties in the order of \<open>for ... in\<close>.
\<close>

datatype json = JString string | JBool bool | JNumber int | JNull

type_synonym config_object = "(string \<times> json) list"

text \<open>
  \<open>configObject[property] == ""\<close> is the loose equality: a boolean or a number is
  compared as a number with \<open>Number("")\<close>, which is 0; \<open>null\<close> equals only \<open>null\<close> and
  \<open>undefined\<close>.
\<close>

definition loose_equals_empty :: "json \<Rightarrow> bool" where
  "loose_equals_empty v =
     (case v of
        JString s \<Rightarrow> s = []
      | JBool b \<Rightarrow> \<not> b
      | JNumber n \<Rightarrow> n = 0
      | JNull \<Rightarrow> False)"

record config_valid =
  valid :: bool
  message :: string

definition at_message :: string where
  "at_message = ''Github username has an @ symbol. It must not. Remove the @ portion of the username and try again''"

definition empty_message :: "string \<Rightarrow> string" where
  "empty_message property =
     ''Property '' @ property @ '' in config must not be empty. Please populate it and try again''"

definition check_property :: "config_valid \<Rightarrow> string \<times> json \<Rightarrow> config_valid" where
  "check_property configValid kv =
     (case kv of (property, v) \<Rightarrow>
        if loose_equals_empty v
        then \<lparr>valid = False, message = empty_message property\<rparr>
        else configValid)"

text \<open>
  \<open>configObject.gitUsername.indexOf('@') > -1\<close> throws a TypeError when the property is
  absent or holds no string.
\<close>

definition checkConfigsValid :: "config_object \<Rightarrow> error + config_valid" where
  "checkConfigsValid configObject =
     (case map_of configObject ''gitUsername'' of
        Some (JString gitUsername) \<Rightarrow>
          (let configValid = \<lparr>valid = True, message = ''Configs Valid!''\<rparr>;
               configValid =
                 (if CHR ''@'' \<in> set gitUsername
                  then \<lparr>valid = False, message = at_message\<rparr> else configValid)
           in Inr (foldl check_property configValid configObject))
      | _ \<Rightarrow> Inl TypeError)"

definition default_config :: config_object where
  "default_config =
     [(''skipExistingChangeSets'', JBool True),
      (''changesetJSONFile'', JString ''changeSetNames.json''),
      (''autoCreatePullRequest'', JBool False),
      (''autofillPullRequestDetails'', JBool True)]"

text \<open>\<open>{ ...config, ...loadedConfig }\<close>\<close>

fun assign :: "config_object \<Rightarrow> string \<times> json \<Rightarrow> config_object" where
  "assign [] kv = [kv]"
| "assign ((k, v) # kvs) kv = (if k = fst kv then (k, snd kv) # kvs else (k, v) # assign kvs kv)"

definition spread :: "config_object \<Rightarrow> config_object \<Rightarrow> config_object" where
  "spread config loadedConfig = foldl assign config loadedConfig"

datatype startup = Aborted error | MenuDisplayed config_object

text \<open>
  \<open>init\<close>, from the configuration that \<open>loadConfig\<close> has read: the pipeline stages are
  reached from \<open>displayMenu\<close> only.
\<close>

definition init :: "config_object \<Rightarrow> startup" where
  "init loadedConfig =
     (let config = spread default_config loadedConfig in
      case checkConfigsValid config of
        Inl err \<Rightarrow> Aborted err
      | Inr configsValidResponse \<Rightarrow>
          if \<not> valid configsValidResponse then Aborted (Error (message configsValidResponse))
          else MenuDisplayed config)"

section \<open>Environments and inputs used in the statements\<close>

text \<open>The same environment, every process leaving with the exit code \<open>f code\<close> instead.\<close>

definition map_exit :: "(int \<Rightarrow> int) \<Rightarrow> proc_event \<Rightarrow> proc_event" where
  "map_exit f ev = (case ev of Data s x \<Rightarrow> Data s x | Exit code \<Rightarrow> Exit (f code))"

definition with_exit_codes :: "(int \<Rightarrow> int) \<Rightarrow> env \<Rightarrow> env" where
  "with_exit_codes f e =
     e\<lparr>run := (\<lambda>w command arguments.
          (run e w command arguments)
            \<lparr>events := map (map_exit f) (events (run e w command arguments))\<rparr>)\<rparr>"

definition demo_config :: config where
  "demo_config =
     \<lparr>skipExistingChangeSets = False, downloadedPackagesFolder = ''packages'',
      salesforceUsername = ''user'', projectName = ''proj''\<rparr>"

text \<open>
  An environment in which every command fails: it writes to stdout and to stderr and exits
  with code 1, changes no file, and the watcher sees one event on \<open>a.xml\<close>.
\<close>

definition failing_env :: env where
  "failing_env =
     \<lparr>run = (\<lambda>w command arguments.
         \<lparr>events = [Data Stdout ''working '', Data Stderr ''failed'', Exit 1],
          reported = [(Rename, ''a.xml'')],
          files_after = files w\<rparr>),
      parseString = (\<lambda>s. Package (Some s))\<rparr>"

text \<open>Files left by an earlier download of the change set \<open>Foo\<close>, and a project tree.\<close>

definition earlier_download :: filesystem where
  "earlier_download =
     [([''packages''], Directory),
      ([''packages'', ''Foo''], Directory),
      ([''packages'', ''Foo'', ''package.xml''], RegularFile ''first change'')]"

definition project_tree :: filesystem where
  "project_tree =
     [([''proj''], Directory), ([''proj'', ''force-app''], Directory),
      ([''proj'', ''force-app'', ''main''], Directory),
      ([''proj'', ''force-app'', ''main'', ''default''], Directory)]"

definition start :: "filesystem \<Rightarrow> world" where
  "start fs = \<lparr>files = fs, watchers = 0, issued = []\<rparr>"

text \<open>
  A download of \<open>Foo\<close> whose package.xml is XML with a description, and an environment in
  which every command fails with exit code 1 and changes no file; the watcher sees one
  event on \<open>a.xml\<close> during the retrieval and none during the git commands. The parser
  gives the description of that package.xml and no object for any other text.
\<close>

definition package_xml_text :: string where
  "package_xml_text = ''<Package><description>first change</description></Package>''"

definition downloaded_Foo :: filesystem where
  "downloaded_Foo =
     [([''packages''], Directory),
      ([''packages'', ''Foo''], Directory),
      ([''packages'', ''Foo'', ''package.xml''], RegularFile package_xml_text)]"

definition failing_git_env :: env where
  "failing_git_env =
     \<lparr>run = (\<lambda>w command arguments.
         \<lparr>events = [Data Stderr ''failed'', Exit 1],
          reported = (if command = ''sfdx'' then [(Rename, ''a.xml'')] else []),
          files_after = files w\<rparr>),
      parseString =
        (\<lambda>s. if s = package_xml_text then Package (Some ''first change'') else NoObject)\<rparr>"

text \<open>
  The output as the specification words it: all chunks of stdout and stderr, in the order
  of arrival. And a process of which one chunk arrives after the \<open>exit\<close> event.
\<close>

fun chunk_text :: "proc_event \<Rightarrow> string" where
  "chunk_text (Data s x) = x"
| "chunk_text (Exit code) = []"

definition spec_all_chunks :: "proc_event list \<Rightarrow> string" where
  "spec_all_chunks evs = concat (map chunk_text evs)"

definition late_env :: env where
  "late_env =
     \<lparr>run = (\<lambda>w command arguments.
         \<lparr>events = [Data Stdout ''a'', Exit 0, Data Stdout ''late''],
          reported = [],
          files_after = files w\<rparr>),
      parseString = (\<lambda>s. NoObject)\<rparr>"

text \<open>The regular files of a file system, each with its content.\<close>

definition regular_files :: "filesystem \<Rightarrow> (string list \<times> string) set" where
  "regular_files fs = {(p, content). map_of fs p = Some (RegularFile content)}"

text \<open>The run of the retrieval command of a change set, the watcher just opened.\<close>

definition retrieval_run :: "env \<Rightarrow> config \<Rightarrow> filesystem \<Rightarrow> world \<Rightarrow> string \<Rightarrow> run_outcome" where
  "retrieval_run e cfg fs w changeSetName =
     run e (w\<lparr>files := fs, watchers := Suc (watchers w)\<rparr>) ''sfdx''
       (retrieve_arguments cfg changeSetName)"

definition skip_config :: config where
  "skip_config = demo_config\<lparr>skipExistingChangeSets := True\<rparr>"

text \<open>
  An environment in which every command succeeds, and the watcher sees the events
  create \<open>a.xml\<close>, modify \<open>a.xml\<close>, create \<open>b.txt\<close>, create \<open>c.xml\<close>.
\<close>

definition retrieving_env :: env where
  "retrieving_env =
     \<lparr>run = (\<lambda>w command arguments.
         \<lparr>events = [Data Stdout ''done'', Exit 0],
          reported = [(Rename, ''a.xml''), (Change, ''a.xml''), (Rename, ''b.txt''),
                      (Rename, ''c.xml'')],
          files_after = files w\<rparr>),
      parseString = (\<lambda>s. Package (Some s))\<rparr>"




section \<open>Facts about the model\<close>

lemmas fs_defs = existsSync_def mkdirSync_def isDirectory_def readdirSync_def readFileSync_def
  split_path_def isSep_def backslash_def path_join_def basename_def package_folder_def
  project_default_folder_def ensure_download_folder_def

lemma isWhitespace_space [simp]: "isWhitespace CHR '' ''"
  by (simp add: isWhitespace_def isWhiteSpaceUnit_def)

lemma isWhitespace_hyphen [simp]: "\<not> isWhitespace CHR ''-''"
  by (simp add: isWhitespace_def isWhiteSpaceUnit_def)

lemma isWhitespace_letters [simp]:
  "\<not> isWhitespace CHR ''a''" "\<not> isWhitespace CHR ''b''"
  by (simp_all add: isWhitespace_def isWhiteSpaceUnit_def)

lemma settle_chunks:
  "settle out (map (\<lambda>(s, x). Data s x) chunks @ Exit code # later) =
     Some \<lparr>exit_code = code, output_text = out @ concat (map snd chunks)\<rparr>"
  by (induction chunks arbitrary: out) auto

lemma runCommand_never_throws: "fst (runCommand e command arguments w) \<noteq> Threw err"
  by (simp add: runCommand_def Let_def split: option.splits)

lemma createGitBranch_never_creates:
  "createGitBranch e label w =
     (Returned Zero, spawn (branch_query (convertPackgeNameToGitName label)) [] w)"
  by (simp add: createGitBranch_def checkIfBranchExists_call_def ToBoolean_def Let_def)

lemma checkIfBranchExists_false:
  "checkIfBranchExists e branchName w = (Returned b, w') \<Longrightarrow> \<not> b"
  by (auto simp: checkIfBranchExists_def await_def greater_zero_def length_property_def
      object_loose_equals_zero_def split: prod.splits outcome.splits)

subsection \<open>The loop of the retrieval\<close>

lemma fetch_each_skips:
  "\<forall>n \<in> set before. skipped cfg (files w) n \<Longrightarrow>
   fetch_each depth e cfg copy (before @ rest) w = fetch_each depth e cfg copy rest w"
  by (induction before) simp_all

lemma fetch_each_first:
  "\<not> skipped cfg (files w) name \<Longrightarrow>
   fetch_each depth e cfg copy (name # later) w = fetch_each depth e cfg copy [name] w"
  by simp

lemma issued_runCommand:
  "issued (snd (runCommand e command arguments w)) = issued w @ [(command, arguments)]"
  by (simp add: runCommand_def Let_def spawn_def split: option.splits)

lemma fetch_each_issued:
  "\<not> skipped cfg (files w) name \<Longrightarrow>
   issued (snd (fetch_each depth e cfg copy [name] w)) =
     issued w @ [(''sfdx'', retrieve_arguments cfg name)]"
  by (auto simp: runCommand_def Let_def spawn_def await_def
      split: option.splits prod.splits outcome.splits)

lemma foldl_watchCallback:
  "foldl watchCallback acc evs = acc @ filter (\<lambda>f. endsWith f ''.xml'') (map snd evs)"
  by (induction evs arbitrary: acc) (auto simp: watchCallback_def)

lemma set_spread_Set [simp]: "set (spread_Set xs) = set xs"
  by (simp add: spread_Set_def)

lemma distinct_spread_Set [simp]: "distinct (spread_Set xs)"
  by (simp add: spread_Set_def)

lemma fetch_each_returns:
  assumes "\<not> skipped cfg (files w) name"
    and "settle [] (events (run e (w\<lparr>watchers := Suc (watchers w)\<rparr>) ''sfdx''
           (retrieve_arguments cfg name))) = Some r"
  shows "fst (fetch_each depth e cfg False [name] w) =
     Returned (spread_Set (filter (\<lambda>f. endsWith f ''.xml'')
       (map snd (reported (run e (w\<lparr>watchers := Suc (watchers w)\<rparr>) ''sfdx''
           (retrieve_arguments cfg name))))))"
  using assms
  by (simp add: runCommand_def Let_def await_def foldl_watchCallback)

text \<open>
  The watcher: left open where the list is returned, closed where the copy has returned.
\<close>

lemma fetch_each_watcher_left_open:
  assumes "\<not> skipped cfg (files w) name"
    and "settle [] (events (run e (w\<lparr>watchers := Suc (watchers w)\<rparr>) ''sfdx''
           (retrieve_arguments cfg name))) = Some r"
  shows "watchers (snd (fetch_each depth e cfg False (name # later) w)) = Suc (watchers w)"
  using assms
  by (simp add: runCommand_def Let_def await_def spawn_def)

lemma fetch_each_watcher_closed_after_copy:
  assumes "\<not> skipped cfg (files w) name"
    and "fetch_each depth e cfg True (name # later) w = (Returned touched, w')"
  shows "watchers w' = watchers w \<and> touched = []"
  using assms
  by (auto simp: runCommand_def Let_def await_def spawn_def spread_Set_def
      split: option.splits prod.splits outcome.splits)

subsection \<open>The copy creates folders only\<close>

lemma mkdirSync_regular_files:
  "mkdirSync fs s = Inr fs' \<Longrightarrow> regular_files fs' = regular_files fs"
  by (auto simp: mkdirSync_def regular_files_def Let_def map_add_def
      split: if_splits option.splits entry.splits)

lemma copy_adds_no_file:
  "regular_files (snd (copyFolderRecursiveSync depth source target fs)) = regular_files fs"
  "regular_files (snd (forEach_file depth source targetFolder names fs)) = regular_files fs"
proof (induction depth source target fs and depth source targetFolder names fs
    rule: copyFolderRecursiveSync_forEach_file.induct)
  case (1 source target fs)
  then show ?case by simp
next
  case (2 depth source target fs)
  then show ?case
    by (auto simp: Let_def mkdirSync_regular_files split: sum.splits bool.splits if_splits)
next
  case (3 depth source targetFolder fs)
  then show ?case by simp
next
  case (4 depth source targetFolder name others fs)
  then show ?case
    by (auto simp: Let_def split: sum.splits bool.splits prod.splits outcome.splits)
qed

lemma forEach_file_throws:
  "isDirectory fs (path_join source file) = Inr False \<Longrightarrow>
   fst (forEach_file depth source targetFolder (file # others) fs) =
     Threw (ReferenceError ''copyFileSync'')"
  by (simp add: Let_def)

subsection \<open>Exit codes are not read by the orchestrator\<close>

lemma settle_map_exit:
  "settle out (map (map_exit f) evs) =
     map_option (\<lambda>r. r\<lparr>exit_code := f (exit_code r)\<rparr>) (settle out evs)"
proof (induction evs arbitrary: out)
  case Nil
  then show ?case by simp
next
  case (Cons ev evs)
  then show ?case by (cases ev) (simp_all add: map_exit_def)
qed

lemma await_runCommand_with_exit_codes:
  "await (runCommand (with_exit_codes f e) command arguments w) (\<lambda>(r, seen) w'. k seen w') =
   await (runCommand e command arguments w) (\<lambda>(r, seen) w'. k seen w')"
  by (cases "settle [] (events (run e w command arguments))")
     (simp_all add: runCommand_def with_exit_codes_def settle_map_exit await_def Let_def)

lemma await_ignore:
  "await (await m (\<lambda>(r, seen) w'. (Returned (g r), w'))) (\<lambda>x w'. k w') =
   await m (\<lambda>(r, seen) w'. k w')"
  by (auto simp: await_def split: prod.splits outcome.splits)

lemma await_runCommand_ignore:
  "await (runCommand (with_exit_codes f e) command arguments w) (\<lambda>r w'. k w') =
   await (runCommand e command arguments w) (\<lambda>r w'. k w')"
  using await_runCommand_with_exit_codes [of f e command arguments w "\<lambda>seen. k"]
  by (simp add: case_prod_unfold)

lemma createGitBranch_with_exit_codes:
  "createGitBranch (with_exit_codes f e) label w = createGitBranch e label w"
  by (simp add: createGitBranch_def checkIfBranchExists_call_def ToBoolean_def Let_def)

lemma changeToGitBranch_with_exit_codes:
  "await (changeToGitBranch (with_exit_codes f e) label w) (\<lambda>x w'. k w') =
   await (changeToGitBranch e label w) (\<lambda>x w'. k w')"
  by (simp add: changeToGitBranch_def Let_def await_ignore await_runCommand_with_exit_codes)

lemma pushBranchToRemote_with_exit_codes:
  "await (pushBranchToRemote (with_exit_codes f e) label w) (\<lambda>x w'. k w') =
   await (pushBranchToRemote e label w) (\<lambda>x w'. k w')"
  by (simp add: pushBranchToRemote_def Let_def await_ignore await_runCommand_with_exit_codes)

lemma gitCommit_with_exit_codes:
  "await (gitCommit (with_exit_codes f e) commitMessage w) (\<lambda>x w'. k w') =
   await (gitCommit e commitMessage w) (\<lambda>x w'. k w')"
  by (simp add: gitCommit_def Let_def await_ignore await_runCommand_with_exit_codes)

lemma commit_from_package_with_exit_codes:
  "await (commit_from_package (with_exit_codes f e) pkg w) (\<lambda>x w'. k w') =
   await (commit_from_package e pkg w) (\<lambda>x w'. k w')"
  by (simp add: commit_from_package_def gitCommit_with_exit_codes
      split: package_xml.splits option.splits)

lemma stageFiles_with_exit_codes:
  "stageFiles turns (with_exit_codes f e) live i fileNames w =
   stageFiles turns e live i fileNames w"
proof (induction turns arbitrary: i fileNames w)
  case 0
  then show ?case by simp
next
  case (Suc turns)
  show ?case
    by (simp add: Suc.IH await_runCommand_with_exit_codes)
qed

lemma fetch_each_with_exit_codes:
  "fetch_each depth (with_exit_codes f e) cfg copy names w = fetch_each depth e cfg copy names w"
proof (induction names arbitrary: w)
  case Nil
  then show ?case by simp
next
  case (Cons name others)
  show ?case
  proof (cases "skipped cfg (files w) name")
    case True
    with Cons show ?thesis by simp
  next
    case False
    then show ?thesis
      by (simp add: Let_def await_runCommand_with_exit_codes)
  qed
qed

lemma fetchChangeSets_with_exit_codes:
  "fetchChangeSets depth (with_exit_codes f e) cfg names copy w =
   fetchChangeSets depth e cfg names copy w"
  by (simp add: fetchChangeSets_def fetch_each_with_exit_codes split: sum.splits)

lemma getPackageXMLAsObject_with_exit_codes:
  "getPackageXMLAsObject (with_exit_codes f e) cfg folderName w =
   getPackageXMLAsObject e cfg folderName w"
  by (simp add: getPackageXMLAsObject_def with_exit_codes_def split: sum.splits)

lemma process_branch_with_exit_codes:
  "process_branch turns (with_exit_codes f e) cfg branchName w =
   process_branch turns e cfg branchName w"
  by (simp add: process_branch_def createGitBranch_with_exit_codes
      changeToGitBranch_with_exit_codes fetchChangeSets_with_exit_codes
      stageFiles_with_exit_codes getPackageXMLAsObject_with_exit_codes
      commit_from_package_with_exit_codes pushBranchToRemote_with_exit_codes)

subsection \<open>The commands of one unit\<close>

text \<open>
  A pass over one unit that comes back has issued the query, the checkout, the retrieval
  if the unit was not skipped, one \<open>git add\<close> for each file the loop has reached, the
  commit and the push, in this order. No exit code appears in the statement.
\<close>

lemma awaited_command_issued:
  "await (runCommand e command arguments w) (\<lambda>(r, seen) w'. (Returned (g r), w')) = (Returned x, w1)
   \<Longrightarrow> issued w1 = issued w @ [(command, arguments)]"
  by (auto simp: await_def runCommand_def Let_def spawn_def
      split: option.splits prod.splits outcome.splits)

lemma stageFiles_issued:
  "stageFiles turns e live i fileNames w = (Returned u, w1) \<Longrightarrow>
   \<exists>touched. issued w1 = issued w @ map (\<lambda>fileName. (''git add '' @ fileName, [])) touched"
proof (induction turns arbitrary: i fileNames w)
  case 0
  then have "issued w1 = issued w @ map (\<lambda>fileName. (''git add '' @ fileName, [])) []"
    by (simp split: if_splits)
  then show ?case by blast
next
  case (Suc turns)
  show ?case
  proof (cases "i < length fileNames")
    case False
    with Suc.prems have "issued w1 = issued w @ map (\<lambda>fileName. (''git add '' @ fileName, [])) []"
      by simp
    then show ?thesis by blast
  next
    case True
    obtain out w2 where run: "runCommand e (''git add '' @ fileNames ! i) [] w = (out, w2)"
      by (cases "runCommand e (''git add '' @ fileNames ! i) [] w")
    with Suc.prems True obtain r seen where "out = Returned (r, seen)"
      and rest: "stageFiles turns e live (Suc i)
         (if live then foldl watchCallback fileNames seen else fileNames) w2 = (Returned u, w1)"
      by (cases out) (auto simp: await_def)
    from Suc.IH [OF rest] obtain touched where
      "issued w1 = issued w2 @ map (\<lambda>fileName. (''git add '' @ fileName, [])) touched"
      by blast
    moreover have "issued w2 = issued w @ [(''git add '' @ fileNames ! i, [])]"
      using issued_runCommand [of e "''git add '' @ fileNames ! i" "[]" w] run by simp
    ultimately have "issued w1 =
        issued w @ map (\<lambda>fileName. (''git add '' @ fileName, [])) ((fileNames ! i) # touched)"
      by simp
    then show ?thesis by blast
  qed
qed

lemma fetchChangeSets_issued:
  "fetchChangeSets depth e cfg [name] False w = (Returned touched, w1) \<Longrightarrow>
   issued w1 = issued w \<or> issued w1 = issued w @ [(''sfdx'', retrieve_arguments cfg name)]"
  by (auto simp: fetchChangeSets_def await_def runCommand_def Let_def spawn_def
      split: sum.splits if_splits option.splits prod.splits outcome.splits)

lemma commit_from_package_issued:
  "commit_from_package e pkg w = (Returned r, w1) \<Longrightarrow>
   \<exists>commitMessage. issued w1 =
      issued w @ [(''git commit -m '' @ [dquote] @ commitMessage @ [dquote] @ '' -a'', [])]"
  by (auto simp: commit_from_package_def gitCommit_def dest!: awaited_command_issued
      split: package_xml.splits option.splits)

lemma process_branch_issues_commit_and_push:
  assumes "process_branch turns e cfg branchName w = (Returned u, w')"
  shows "\<exists>retrieval touched commitMessage.
     issued w' = issued w @
       [(branch_query (convertPackgeNameToGitName branchName), []),
        (''git checkout -b '' @ convertPackgeNameToGitName branchName, [])] @
       retrieval @ map (\<lambda>fileName. (''git add '' @ fileName, [])) touched @
       [(''git commit -m '' @ [dquote] @ commitMessage @ [dquote] @ '' -a'', []),
        (''git push -u origin HEAD'', [])]"
proof -
  let ?w1 = "spawn (branch_query (convertPackgeNameToGitName branchName)) [] w"
  from assms have a1: "await (changeToGitBranch e branchName ?w1) (\<lambda>checkedOut w2.
     await (fetchChangeSets 0 e cfg [branchName] False w2) (\<lambda>downloadedFiles w3.
     await (stageFiles turns e (watcher_left_open w2 w3) 0 downloadedFiles w3) (\<lambda>staged w4.
     await (getPackageXMLAsObject e cfg branchName w4) (\<lambda>packageXMLJSON w5.
     await (commit_from_package e packageXMLJSON w5) (\<lambda>committed w6.
     await (pushBranchToRemote e branchName w6) (\<lambda>pushed w7.
     (Returned (), w7))))))) = (Returned u, w')"
    by (simp add: process_branch_def createGitBranch_never_creates await_def)
  then obtain r2 w2 where s2: "changeToGitBranch e branchName ?w1 = (Returned r2, w2)"
    and a2: "await (fetchChangeSets 0 e cfg [branchName] False w2) (\<lambda>downloadedFiles w3.
     await (stageFiles turns e (watcher_left_open w2 w3) 0 downloadedFiles w3) (\<lambda>staged w4.
     await (getPackageXMLAsObject e cfg branchName w4) (\<lambda>packageXMLJSON w5.
     await (commit_from_package e packageXMLJSON w5) (\<lambda>committed w6.
     await (pushBranchToRemote e branchName w6) (\<lambda>pushed w7.
     (Returned (), w7)))))) = (Returned u, w')"
    by (auto simp: await_def [of "changeToGitBranch e branchName ?w1"] split: prod.splits outcome.splits)
  then obtain downloaded w3 where
    s3: "fetchChangeSets 0 e cfg [branchName] False w2 = (Returned downloaded, w3)"
    and a3: "await (stageFiles turns e (watcher_left_open w2 w3) 0 downloaded w3) (\<lambda>staged w4.
     await (getPackageXMLAsObject e cfg branchName w4) (\<lambda>packageXMLJSON w5.
     await (commit_from_package e packageXMLJSON w5) (\<lambda>committed w6.
     await (pushBranchToRemote e branchName w6) (\<lambda>pushed w7.
     (Returned (), w7))))) = (Returned u, w')"
    by (auto simp: await_def [of "fetchChangeSets 0 e cfg [branchName] False w2"] split: prod.splits outcome.splits)
  then obtain w4 where
    s4: "stageFiles turns e (watcher_left_open w2 w3) 0 downloaded w3 = (Returned (), w4)"
    and a4: "await (getPackageXMLAsObject e cfg branchName w4) (\<lambda>packageXMLJSON w5.
     await (commit_from_package e packageXMLJSON w5) (\<lambda>committed w6.
     await (pushBranchToRemote e branchName w6) (\<lambda>pushed w7.
     (Returned (), w7)))) = (Returned u, w')"
    by (auto simp: await_def [of "stageFiles turns e (watcher_left_open w2 w3) 0 downloaded w3"]
        split: prod.splits outcome.splits)
  then obtain pkg where s5: "getPackageXMLAsObject e cfg branchName w4 = (Returned pkg, w4)"
    and a5: "await (commit_from_package e pkg w4) (\<lambda>committed w6.
     await (pushBranchToRemote e branchName w6) (\<lambda>pushed w7.
     (Returned (), w7))) = (Returned u, w')"
    by (auto simp: getPackageXMLAsObject_def await_def [of "case_sum _ _ _"] split: sum.splits)
  then obtain r6 w6 where s6: "commit_from_package e pkg w4 = (Returned r6, w6)"
    and a6: "await (pushBranchToRemote e branchName w6) (\<lambda>pushed w7. (Returned (), w7)) =
      (Returned u, w')"
    by (auto simp: await_def [of "commit_from_package e pkg w4"] split: prod.splits outcome.splits)
  then obtain r7 where s7: "pushBranchToRemote e branchName w6 = (Returned r7, w')"
    by (auto simp: await_def split: prod.splits outcome.splits)
  have i1: "issued ?w1 = issued w @ [(branch_query (convertPackgeNameToGitName branchName), [])]"
    by (simp add: spawn_def)
  have i2: "issued w2 = issued ?w1 @ [(''git checkout -b '' @ convertPackgeNameToGitName branchName, [])]"
    using s2 by (auto simp: changeToGitBranch_def Let_def dest: awaited_command_issued)
  from fetchChangeSets_issued [OF s3] obtain retrieval where i3: "issued w3 = issued w2 @ retrieval"
    by auto
  from stageFiles_issued [OF s4] obtain touched where
    i4: "issued w4 = issued w3 @ map (\<lambda>fileName. (''git add '' @ fileName, [])) touched"
    by blast
  from commit_from_package_issued [OF s6] obtain commitMessage where
    i6: "issued w6 = issued w4 @ [(''git commit -m '' @ [dquote] @ commitMessage @ [dquote] @ '' -a'', [])]"
    by auto
  have i7: "issued w' = issued w6 @ [(''git push -u origin HEAD'', [])]"
    using s7 by (auto simp: pushBranchToRemote_def Let_def dest: awaited_command_issued)
  show ?thesis
    unfolding i7 i6 i4 i3 i2 i1 by auto
qed

text \<open>
  Where the watcher left open sees a file ending in \<open>.xml\<close> during every \<open>git add\<close>,
  as in the environment \<open>failing_env\<close>, the loop does not end within any bound.
\<close>

lemma stageFiles_goes_on:
  "length downloadedFiles = Suc i \<Longrightarrow>
   fst (stageFiles turns failing_env True i downloadedFiles w) = Pending"
proof (induction turns arbitrary: i downloadedFiles w)
  case 0
  then show ?case by simp
next
  case (Suc turns)
  have grown: "length (foldl watchCallback downloadedFiles [(Rename, ''a.xml'')]) = Suc (Suc i)"
    using Suc.prems by (simp add: watchCallback_def endsWith_def)
  have "fst (stageFiles turns failing_env True (Suc i)
          (foldl watchCallback downloadedFiles [(Rename, ''a.xml'')]) w') = Pending" for w'
    by (rule Suc.IH [OF grown])
  with Suc.prems show ?case
    by (simp add: runCommand_def failing_env_def Let_def await_def)
qed

subsection \<open>Validation of the configuration\<close>












text \<open>
  With the defaults alone \<open>autoCreatePullRequest\<close> is \<open>false\<close>, and \<open>false == ""\<close> holds.
\<close>

lemma init_rejects_default_false:
  "init [(''gitUsername'', JString ''me'')] =
     Aborted (Error (empty_message ''autoCreatePullRequest''))"
  by (simp add: init_def checkConfigsValid_def Let_def spread_def default_config_def
      check_property_def loose_equals_empty_def)

section \<open>The claims\<close>

subsection \<open>C1: a failed command and the stages after it\<close>

text \<open>
  Claim C1, as stated, in the environment where every command exits with code 1 and the
  folder of an earlier download of \<open>Foo\<close> is still there: the checkout returns exit code
  1, as the retrieval does, and \<open>git add\<close>, \<open>git commit\<close> and \<open>git push\<close> are issued for
  the same unit all the same.
\<close>

theorem populateAndPushBranches_after_failure_counterexample:
  "fst (changeToGitBranch failing_git_env ''Foo'' (start downloaded_Foo)) =
     Returned \<lparr>exit_code = 1, output_text = ''failed''\<rparr> \<and>
   populateAndPushBranches 2 failing_git_env demo_config [''Foo''] (start downloaded_Foo) =
     (Returned (),
      \<lparr>files = downloaded_Foo, watchers = 1,
       issued = [(''git branch -l Foo)'', []), (''git checkout -b Foo'', []),
                 (''sfdx'', retrieve_arguments demo_config ''Foo''),
                 (''git add a.xml'', []),
                 (''git commit -m '' @ [dquote] @ ''first change'' @ [dquote] @ '' -a'', []),
                 (''git push -u origin HEAD'', [])]\<rparr>)"
  by (simp add: process_branch_def createGitBranch_def checkIfBranchExists_call_def ToBoolean_def
      changeToGitBranch_def branch_query_def convertPackgeNameToGitName_def isWhitespace_def
      isWhiteSpaceUnit_def fetchChangeSets_def demo_config_def start_def fs_defs skipped_def
      runCommand_def await_def spawn_def failing_git_env_def Let_def watchCallback_def
      endsWith_def spread_Set_def getPackageXMLAsObject_def commit_from_package_def
      gitCommit_def pushBranchToRemote_def downloaded_Foo_def watcher_left_open_def
      numeral_2_eq_2)

text \<open>
  Claim C1, amended: \<open>populateAndPushBranches\<close> reads no exit code. Whatever exit codes
  the external commands return, the pass over the batch ends in the same way and in the
  same state, in particular with the same commands issued in the same order: after a
  command of a unit has failed, the staging, commit and push of that unit are attempted
  exactly as they are after it has succeeded.
\<close>

theorem populateAndPushBranches_ignores_exit_codes:
  "populateAndPushBranches turns (with_exit_codes f e) cfg branchNames w =
   populateAndPushBranches turns e cfg branchNames w"
proof (induction branchNames arbitrary: w)
  case Nil
  then show ?case by simp
next
  case (Cons branchName others)
  have same: "populateAndPushBranches turns (with_exit_codes f e) cfg others =
              populateAndPushBranches turns e cfg others"
    by (rule ext) (rule Cons.IH)
  show ?case
    by (simp only: populateAndPushBranches.simps same process_branch_with_exit_codes)
qed

subsection \<open>C2: the watcher of a retrieval\<close>

text \<open>
  Claim C2 at the call \<open>fetchChangeSets(["Foo"])\<close> that the orchestrator makes, with a
  retrieval that exits with code 1: the list of files is returned and the watcher opened for
  the retrieval is still open.
\<close>

theorem fetchChangeSets_leaves_watcher_open:
  "fetchChangeSets 0 failing_env demo_config [''Foo''] False
       (start [([''packages''], Directory)]) =
     (Returned [''a.xml''],
      \<lparr>files = [([''packages''], Directory)], watchers = 1,
       issued = [(''sfdx'', retrieve_arguments demo_config ''Foo'')]\<rparr>)"
  by (simp add: fetchChangeSets_def demo_config_def start_def fs_defs skipped_def
      runCommand_def await_def spawn_def failing_env_def Let_def watchCallback_def endsWith_def
      spread_Set_def)

subsection \<open>C3: the branch name of a label\<close>

text \<open>
  Claim C3, as stated, at the label \<open>a  b\<close> (two adjacent spaces): the source yields two
  hyphens where the run-collapsing derivation of the claim yields one.
\<close>

theorem convertPackgeNameToGitName_runs_counterexample:
  "convertPackgeNameToGitName ''a  b'' = ''a--b'' \<and>
   spec_replaceWhitespaceRuns ''a  b'' = ''a-b'' \<and>
   convertPackgeNameToGitName ''a  b'' \<noteq> spec_replaceWhitespaceRuns ''a  b''"
  by (simp add: convertPackgeNameToGitName_def)

text \<open>
  Claim C3, amended: the derivation replaces every white space character (not every run)
  by one hyphen. The branch name has the length of the label, a hyphen at each position
  where the label has white space and the label's character at every other position.
\<close>

theorem convertPackgeNameToGitName_each_char:
  "length (convertPackgeNameToGitName label) = length label \<and>
   (\<forall>i < length label.
      convertPackgeNameToGitName label ! i =
        (if isWhitespace (label ! i) then CHR ''-'' else label ! i))"
  by (simp add: convertPackgeNameToGitName_def)

theorem convertPackgeNameToGitName_each_char_witness:
  "(1::nat) < length ''a  b'' \<and> isWhitespace (''a  b'' ! 1) \<and>
   (2::nat) < length ''a  b'' \<and> isWhitespace (''a  b'' ! 2) \<and>
   length (convertPackgeNameToGitName ''a  b'') = 4 \<and>
   convertPackgeNameToGitName ''a  b'' ! 1 = CHR ''-'' \<and>
   convertPackgeNameToGitName ''a  b'' ! 2 = CHR ''-''"
  using convertPackgeNameToGitName_each_char [of "''a  b''"]
  by simp

subsection \<open>C4: creation of the branch\<close>

text \<open>
  Claim C4 at the label \<open>Foo\<close>, with no branch of that name: \<open>createGitBranch\<close> spawns the
  query and returns 0 without waiting for it; the command \<open>git branch Foo -f\<close> is not
  issued.
\<close>

theorem createGitBranch_issues_no_creation:
  "createGitBranch failing_env ''Foo'' (start []) =
     (Returned Zero, \<lparr>files = [], watchers = 0, issued = [(''git branch -l Foo)'', [])]\<rparr>) \<and>
   (''git branch Foo -f'', []) \<notin> set (issued (snd (createGitBranch failing_env ''Foo'' (start []))))"
  by (simp add: createGitBranch_def checkIfBranchExists_call_def ToBoolean_def Let_def
      spawn_def start_def branch_query_def convertPackgeNameToGitName_def isWhitespace_def
      isWhiteSpaceUnit_def)

subsection \<open>C5: a change set that was downloaded before\<close>

text \<open>
  Claim C5: when \<open>skipExistingChangeSets\<close> is true and the download folder holds an entry
  named for the label, the retrieval of that unit returns the empty list and leaves the
  state as it was: no command is issued and no watcher is opened.
\<close>

theorem fetchChangeSets_skips_existing:
  assumes "skipExistingChangeSets cfg"
    and "existsSync (files w) (downloadedPackagesFolder cfg)"
    and "existsSync (files w) (package_folder cfg label)"
  shows "fetchChangeSets depth e cfg [label] copyToProjectFolder w = (Returned [], w)"
  using assms
  by (simp add: fetchChangeSets_def ensure_download_folder_def skipped_def)

theorem fetchChangeSets_skips_existing_witness:
  "skipExistingChangeSets skip_config \<and>
   existsSync (files (start earlier_download)) (downloadedPackagesFolder skip_config) \<and>
   existsSync (files (start earlier_download)) (package_folder skip_config ''Foo'') \<and>
   fetchChangeSets 0 failing_env skip_config [''Foo''] False (start earlier_download) =
     (Returned [], start earlier_download)"
proof -
  have h1: "skipExistingChangeSets skip_config"
    by (simp add: skip_config_def)
  have h2: "existsSync (files (start earlier_download)) (downloadedPackagesFolder skip_config)"
    by (simp add: skip_config_def demo_config_def start_def earlier_download_def fs_defs)
  have h3: "existsSync (files (start earlier_download)) (package_folder skip_config ''Foo'')"
    by (simp add: skip_config_def demo_config_def start_def earlier_download_def fs_defs)
  show ?thesis
    using h1 h2 h3 fetchChangeSets_skips_existing [OF h1 h2 h3, of 0 failing_env False]
    by simp
qed

subsection \<open>C6: the result of a command\<close>

text \<open>
  Claim C6, as stated, at a process of which the chunk \<open>late\<close> arrives after the \<open>exit\<close>
  event: the promise is resolved on \<open>exit\<close> with the output \<open>a\<close>, which is not the
  concatenation of all chunks.
\<close>

theorem runCommand_drops_late_chunk_counterexample:
  "fst (runCommand late_env ''git status'' [] (start [])) =
     Returned (\<lparr>exit_code = 0, output_text = ''a''\<rparr>, []) \<and>
   spec_all_chunks (events (run late_env (start []) ''git status'' [])) = ''alate'' \<and>
   settle [] (events (run late_env (start []) ''git status'' [])) \<noteq>
     Some \<lparr>exit_code = 0,
           output_text = spec_all_chunks (events (run late_env (start []) ''git status'' []))\<rparr>"
  by (simp add: runCommand_def late_env_def Let_def spec_all_chunks_def)

text \<open>
  Claim C6, amended: \<open>runCommand\<close> never throws, and when the process emits chunks of
  stdout and stderr, then exits with any code, zero or not, and emits whatever it emits
  later, the promise is resolved with that exit code and the concatenation, in the order
  of arrival, of the chunks that arrived before the \<open>exit\<close> event.
\<close>

theorem runCommand_resolves:
  "(\<forall>err. fst (runCommand e command arguments w) \<noteq> Threw err) \<and>
   (events (run e w command arguments) = map (\<lambda>(s, x). Data s x) chunks @ Exit code # later \<longrightarrow>
    fst (runCommand e command arguments w) =
      Returned (\<lparr>exit_code = code, output_text = concat (map snd chunks)\<rparr>,
                reported (run e w command arguments)))"
  by (simp add: runCommand_def Let_def settle_chunks split: option.splits)

theorem runCommand_resolves_witness:
  "events (run late_env (start []) ''git status'' []) =
     map (\<lambda>(s, x). Data s x) [(Stdout, ''a'')] @ Exit 0 # [Data Stdout ''late''] \<and>
   fst (runCommand late_env ''git status'' [] (start [])) =
     Returned (\<lparr>exit_code = 0, output_text = ''a''\<rparr>, [])"
  using runCommand_resolves [of late_env "''git status''" "[]" "start []"
      "[(Stdout, ''a'')]" 0 "[Data Stdout ''late'']"]
  by (simp add: late_env_def)

subsection \<open>C7: validation at start-up\<close>




subsection \<open>C8: the copy into the project tree\<close>

text \<open>
  Claim C8 at a downloaded package \<open>Foo\<close> that holds the file \<open>package.xml\<close>: the copy
  creates the folder in the project tree and then throws the ReferenceError of
  \<open>copyFileSync\<close>; the file is not copied.
\<close>

theorem copyPackageIntoProjectFolder_throws:
  "copyPackageIntoProjectFolder 2 demo_config ''Foo'' (earlier_download @ project_tree) =
     (Threw (ReferenceError ''copyFileSync''),
      earlier_download @ project_tree @
        [([''proj'', ''force-app'', ''main'', ''default'', ''Foo''], Directory)])"
  by (simp add: copyPackageIntoProjectFolder_def numeral_2_eq_2 demo_config_def fs_defs
      earlier_download_def project_tree_def Let_def)

subsection \<open>C9: the files the watcher has seen\<close>

text \<open>
  Claim C9, for the call the orchestrator makes (\<open>copyToProjectFolder\<close> not set) on a
  change set that is not skipped and whose retrieval process exits: the list returned has
  no duplicates and holds exactly the file names of the events seen during the retrieval
  that end in \<open>.xml\<close>. The witness is the sequence of events of the claim.
\<close>

theorem fetchChangeSets_touched_files:
  assumes "ensure_download_folder cfg (files w) = Inr fs"
    and "\<not> skipped cfg fs name"
    and "settle [] (events (retrieval_run e cfg fs w name)) = Some r"
  shows "\<exists>touched. fst (fetchChangeSets depth e cfg [name] False w) = Returned touched \<and>
           distinct touched \<and>
           set touched = {filename. \<exists>eventType.
              (eventType, filename) \<in> set (reported (retrieval_run e cfg fs w name)) \<and>
              endsWith filename ''.xml''}"
proof -
  let ?w = "w\<lparr>files := fs\<rparr>"
  have first: "\<not> skipped cfg (files ?w) name"
    using assms by simp
  have "settle [] (events (run e (?w\<lparr>watchers := Suc (watchers ?w)\<rparr>)
        ''sfdx'' (retrieve_arguments cfg name))) = Some r"
    using assms(3) by (simp add: retrieval_run_def)
  from fetch_each_returns [OF first this]
  have "fst (fetchChangeSets depth e cfg [name] False w) =
     Returned (spread_Set (filter (\<lambda>f. endsWith f ''.xml'')
       (map snd (reported (retrieval_run e cfg fs w name)))))"
    by (simp add: fetchChangeSets_def assms(1) retrieval_run_def)
  then show ?thesis by force
qed

theorem fetchChangeSets_touched_files_witness:
  "ensure_download_folder demo_config (files (start [])) = Inr [([''packages''], Directory)] \<and>
   \<not> skipped demo_config [([''packages''], Directory)] ''Foo'' \<and>
   settle [] (events (retrieval_run retrieving_env demo_config [([''packages''], Directory)]
      (start []) ''Foo'')) = Some \<lparr>exit_code = 0, output_text = ''done''\<rparr> \<and>
   reported (retrieval_run retrieving_env demo_config [([''packages''], Directory)]
      (start []) ''Foo'') =
     [(Rename, ''a.xml''), (Change, ''a.xml''), (Rename, ''b.txt''), (Rename, ''c.xml'')] \<and>
   (\<exists>touched. fst (fetchChangeSets 0 retrieving_env demo_config [''Foo''] False (start [])) =
        Returned touched \<and> distinct touched \<and> set touched = {''a.xml'', ''c.xml''})"
proof -
  let ?fs = "[([''packages''], Directory)]"
  have h1: "ensure_download_folder demo_config (files (start [])) = Inr ?fs"
    by (simp add: demo_config_def start_def fs_defs)
  have h2: "\<not> skipped demo_config ?fs ''Foo''"
    by (simp add: skipped_def demo_config_def)
  have h3: "settle [] (events (retrieval_run retrieving_env demo_config ?fs (start []) ''Foo'')) =
            Some \<lparr>exit_code = 0, output_text = ''done''\<rparr>"
    by (simp add: retrieval_run_def retrieving_env_def)
  have h4: "reported (retrieval_run retrieving_env demo_config ?fs (start []) ''Foo'') =
     [(Rename, ''a.xml''), (Change, ''a.xml''), (Rename, ''b.txt''), (Rename, ''c.xml'')]"
    by (simp add: retrieval_run_def retrieving_env_def)
  have names: "{filename. \<exists>eventType. (eventType, filename) \<in>
        set [(Rename, ''a.xml''), (Change, ''a.xml''), (Rename, ''b.txt''), (Rename, ''c.xml'')] \<and>
        endsWith filename ''.xml''} = {''a.xml'', ''c.xml''}"
    by (auto simp: endsWith_def)
  show ?thesis
    using h1 h2 h3 h4 fetchChangeSets_touched_files [OF h1 h2 h3, of 0]
    by (simp only: h4 names) simp
qed

subsection \<open>C10: one download for each call\<close>

text \<open>
  Claim C10: when the names before \<open>name\<close> are skipped and \<open>name\<close> is not, the call
  behaves as the call on \<open>name\<close> alone whatever names follow, and the one command it issues
  is the retrieval of \<open>name\<close>; it returns as soon as that retrieval has exited.
\<close>

theorem fetchChangeSets_first_only:
  assumes "ensure_download_folder cfg (files w) = Inr fs"
    and "\<forall>n \<in> set before. skipped cfg fs n"
    and "\<not> skipped cfg fs name"
  shows "fetchChangeSets depth e cfg (before @ name # later) copy w =
           fetchChangeSets depth e cfg [name] copy w \<and>
         issued (snd (fetchChangeSets depth e cfg (before @ name # later) copy w)) =
           issued w @ [(''sfdx'', retrieve_arguments cfg name)] \<and>
         (settle [] (events (retrieval_run e cfg fs w name)) \<noteq> None \<and> \<not> copy \<longrightarrow>
            (\<exists>touched. fst (fetchChangeSets depth e cfg (before @ name # later) copy w) =
               Returned touched))"
proof -
  let ?w = "w\<lparr>files := fs\<rparr>"
  have skip: "\<forall>n \<in> set before. skipped cfg (files ?w) n" and first: "\<not> skipped cfg (files ?w) name"
    using assms by simp_all
  have same: "fetch_each depth e cfg copy (before @ name # later) ?w =
              fetch_each depth e cfg copy [name] ?w"
    using fetch_each_skips [OF skip] fetch_each_first [OF first] by metis
  have one: "issued (snd (fetch_each depth e cfg copy [name] ?w)) =
             issued w @ [(''sfdx'', retrieve_arguments cfg name)]"
    using fetch_each_issued [OF first] by simp
  have ret: "\<exists>touched. fst (fetch_each depth e cfg copy [name] ?w) = Returned touched"
    if "settle [] (events (retrieval_run e cfg fs w name)) \<noteq> None" and "\<not> copy"
  proof -
    from that obtain r where "settle [] (events (run e (?w\<lparr>watchers := Suc (watchers ?w)\<rparr>)
        ''sfdx'' (retrieve_arguments cfg name))) = Some r"
      by (auto simp: retrieval_run_def)
    from fetch_each_returns [OF first this] that show ?thesis by auto
  qed
  have unfold: "fetchChangeSets depth e cfg names copy w = fetch_each depth e cfg copy names ?w"
    for names
    by (simp add: fetchChangeSets_def assms(1))
  show ?thesis
    unfolding unfold same using one ret by blast
qed

theorem fetchChangeSets_first_only_witness:
  "ensure_download_folder skip_config (files (start earlier_download)) = Inr earlier_download \<and>
   skipped skip_config earlier_download ''Foo'' \<and>
   \<not> skipped skip_config earlier_download ''Bar'' \<and>
   settle [] (events (retrieval_run failing_env skip_config earlier_download
      (start earlier_download) ''Bar'')) \<noteq> None \<and>
   fetchChangeSets 0 failing_env skip_config ([''Foo''] @ ''Bar'' # [''Baz'', ''Qux'']) False
       (start earlier_download) =
     fetchChangeSets 0 failing_env skip_config [''Bar''] False (start earlier_download) \<and>
   issued (snd (fetchChangeSets 0 failing_env skip_config
       ([''Foo''] @ ''Bar'' # [''Baz'', ''Qux'']) False (start earlier_download))) =
     issued (start earlier_download) @ [(''sfdx'', retrieve_arguments skip_config ''Bar'')] \<and>
   (\<exists>touched. fst (fetchChangeSets 0 failing_env skip_config
       ([''Foo''] @ ''Bar'' # [''Baz'', ''Qux'']) False (start earlier_download)) =
       Returned touched)"
proof -
  have h1: "ensure_download_folder skip_config (files (start earlier_download)) =
            Inr earlier_download"
    by (simp add: skip_config_def demo_config_def start_def earlier_download_def fs_defs)
  have h2: "\<forall>n \<in> set [''Foo'']. skipped skip_config earlier_download n"
    by (simp add: skipped_def skip_config_def demo_config_def earlier_download_def fs_defs)
  have h3: "\<not> skipped skip_config earlier_download ''Bar''"
    by (simp add: skipped_def skip_config_def demo_config_def earlier_download_def fs_defs)
  have h4: "settle [] (events (retrieval_run failing_env skip_config earlier_download
      (start earlier_download) ''Bar'')) \<noteq> None"
    by (simp add: retrieval_run_def failing_env_def)
  have h5: "skipped skip_config earlier_download ''Foo''"
    using h2 by simp
  show ?thesis
    using h1 h3 h4 h5
      fetchChangeSets_first_only [OF h1 h2 h3, of 0 failing_env "[''Baz'', ''Qux'']" False]
    by blast
qed

end
